theory Spec2Isabelle
  imports
    Main
    "HOL-Library.Multiset"
    "HOL-Library.Product_Lexorder"
    "HOL-Library.List_Lexorder"
    "HOL-Library.Char_ord"
begin

section \<open>Data model (task\_tracker/models.py)\<close>

text \<open>
  Free text (names, titles) is a Python \<open>str\<close>: a sequence of Unicode code points,
  modelled as a list of code points. Status values and query parameters are only compared
  with ASCII literals and are kept as \<open>string\<close>.

  A \<open>datetime.date\<close> is the triple (year, month, day); Python compares dates in that
  lexicographic order, which is the order of triples here.
\<close>

type_synonym ustr = "nat list"
type_synonym date = "nat \<times> nat \<times> nat"

record employee =
  emp_id :: int
  last_name :: ustr
  first_name :: ustr
  middle_name :: "ustr option"
  position :: ustr
  department :: "ustr option"
  hired_date :: "date option"

record task =
  task_id :: int
  name :: ustr
  description :: "ustr option"
  parent_task :: "int option"
  assigned_to :: "int option"
  due_date :: date
  status :: string

text \<open>The persisted snapshot: the rows of both tables, in the order the database returns them.\<close>

record database =
  employees :: "employee list"
  tasks :: "task list"

text \<open>
  The messages of the repository are Russian sentences; each is a constructor here, with
  the lists that the f-string interpolates kept as arguments.
  \<^item> \<open>Filter_not_possible invalid allowed\<close>: "filtering by field(s) ... is not possible.
    Fields available for filtering: ..."
  \<^item> \<open>First_name_letters\<close>, \<open>Last_name_letters\<close>, \<open>Middle_name_letters\<close>: "the (first name /
    surname / patronymic) must contain letters only."
  \<^item> \<open>Hired_date_future\<close>: "the hire date cannot be in the future."
  \<^item> \<open>Due_date_past\<close>: "the due date of the task cannot be in the past."
  \<^item> \<open>Invalid_filter_value\<close>: the filter library's own message for a value it cannot parse.
\<close>

datatype message =
    Filter_not_possible "string list" "string list"
  | First_name_letters
  | Last_name_letters
  | Middle_name_letters
  | Hired_date_future
  | Due_date_past
  | Invalid_filter_value string

text \<open>
  \<open>ValidationError\<close> is what the repository raises; \<open>ValidationErrors\<close> is the serializer's
  dictionary of per-field messages; \<open>TypeError\<close> and \<open>AttributeError\<close> are Python's own;
  \<open>Http404\<close> and \<open>DoesNotExist\<close> are the framework's for a missing row.
\<close>

datatype error =
    ValidationError message
  | ValidationErrors "(string \<times> message) list"
  | TypeError
  | AttributeError
  | Http404
  | DoesNotExist

section \<open>Queries on the snapshot\<close>

text \<open>\<open>Task.objects.filter(assigned_to=employee, status__in=['new', 'in_progress'])\<close>\<close>

definition active_tasks :: "database \<Rightarrow> employee \<Rightarrow> task list" where
  "active_tasks db e =
     filter (\<lambda>t. assigned_to t = Some (emp_id e) \<and> status t \<in> set [''new'', ''in_progress''])
       (tasks db)"

text \<open>\<open>Task.objects.filter(assigned_to=employee).count()\<close>\<close>

definition task_count :: "database \<Rightarrow> employee \<Rightarrow> nat" where
  "task_count db e = length (filter (\<lambda>t. assigned_to t = Some (emp_id e)) (tasks db))"

text \<open>\<open>Task.objects.filter(parent_task=task, assigned_to=employee).exists()\<close>\<close>

definition parent_task_employee :: "database \<Rightarrow> task \<Rightarrow> employee \<Rightarrow> bool" where
  "parent_task_employee db t e =
     list_ex (\<lambda>c. parent_task c = Some (task_id t) \<and> assigned_to c = Some (emp_id e)) (tasks db)"

section \<open>Important tasks (views.py, ImportantTasksListAPIView)\<close>

text \<open>
  \<open>Task.objects.filter(status='new', parent_task__status='in_progress')\<close>: the lookup through
  \<open>parent_task\<close> is an inner join of the task table with itself on the parent reference.
\<close>

definition ImportantTasksListAPIView_get_queryset :: "database \<Rightarrow> task list" where
  "ImportantTasksListAPIView_get_queryset db =
     [t. t \<leftarrow> tasks db, p \<leftarrow> tasks db,
         parent_task t = Some (task_id p), status t = ''new'', status p = ''in_progress'']"

section \<open>Potential employees (serializers.py, ImportantTaskSerializer)\<close>

definition ascii :: "string \<Rightarrow> ustr" where
  "ascii s = map of_char s"

text \<open>\<open>str(n)\<close> for an integer: its decimal digits, with a minus sign when negative.\<close>

fun digits :: "nat \<Rightarrow> ustr" where
  "digits n = (if n < 10 then [48 + n] else digits (n div 10) @ [48 + n mod 10])"

definition str_int :: "int \<Rightarrow> ustr" where
  "str_int i = (if i < 0 then 45 # digits (nat (- i)) else digits (nat i))"

text \<open>The code points that \<open>str.strip()\<close> removes (those for which \<open>str.isspace\<close> holds).\<close>

definition is_space :: "nat \<Rightarrow> bool" where
  "is_space c \<longleftrightarrow>
     (9 \<le> c \<and> c \<le> 13) \<or> (28 \<le> c \<and> c \<le> 32) \<or> c = 133 \<or> c = 160 \<or> c = 5760 \<or>
     (8192 \<le> c \<and> c \<le> 8202) \<or> c = 8232 \<or> c = 8233 \<or> c = 8239 \<or> c = 8287 \<or> c = 12288"

definition strip :: "ustr \<Rightarrow> ustr" where
  "strip s = rev (dropWhile is_space (rev (dropWhile is_space s)))"

text \<open>
  \<open>(f"{employee.last_name} {employee.first_name} {employee.middle_name or ''}. ID:{employee.id}").strip()\<close>
\<close>

definition employee_name :: "employee \<Rightarrow> ustr" where
  "employee_name e =
     strip (last_name e @ ascii '' '' @ first_name e @ ascii '' '' @
            (case middle_name e of None \<Rightarrow> [] | Some m \<Rightarrow> m) @
            ascii ''. ID:'' @ str_int (emp_id e))"

text \<open>
  The first loop: \<open>min_task_count\<close> starts as \<open>None\<close>, the first employee sets it, each later
  one lowers it when its count is smaller. It runs only after the guard
  \<open>if not employees: return []\<close>, so on a non-empty list.
\<close>

definition min_step :: "database \<Rightarrow> nat option \<Rightarrow> employee \<Rightarrow> nat option" where
  "min_step db m e =
     (case m of
        None \<Rightarrow> Some (task_count db e)
      | Some k \<Rightarrow> if task_count db e < k then Some (task_count db e) else Some k)"

definition min_task_count :: "database \<Rightarrow> nat option" where
  "min_task_count db = foldl (min_step db) None (employees db)"

text \<open>The second loop: one step appends the employee's label unless it is already there.\<close>

definition suitable :: "database \<Rightarrow> task \<Rightarrow> nat \<Rightarrow> employee \<Rightarrow> bool" where
  "suitable db t m e \<longleftrightarrow>
     task_count db e = m \<or> (parent_task_employee db t e \<and> task_count db e \<le> m + 2)"

definition suitable_step :: "database \<Rightarrow> task \<Rightarrow> nat \<Rightarrow> ustr list \<Rightarrow> employee \<Rightarrow> ustr list" where
  "suitable_step db t m acc e =
     (if suitable db t m e
      then (if employee_name e \<notin> set acc then acc @ [employee_name e] else acc)
      else acc)"

definition get_potential_employees :: "database \<Rightarrow> task \<Rightarrow> ustr list" where
  "get_potential_employees db t =
     (if employees db = [] then []
      else case min_task_count db of
             None \<Rightarrow> []
           | Some m \<Rightarrow> foldl (suitable_step db t m) [] (employees db))"

section \<open>Busy employees (views.py, BusyEmployeesListAPIView)\<close>

text \<open>
  The loop over \<open>active_tasks\<close> that finds the earliest due date: the accumulator starts as
  \<open>None\<close>; a task replaces it when it is \<open>None\<close> or the task's date is smaller.
\<close>

definition earliest_step :: "date option \<Rightarrow> task \<Rightarrow> date option" where
  "earliest_step acc t =
     (case acc of
        None \<Rightarrow> Some (due_date t)
      | Some d \<Rightarrow> if due_date t < d then Some (due_date t) else Some d)"

text \<open>One dictionary of \<open>employee_task_data\<close>.\<close>

record employee_task_data =
  d_employee :: employee
  d_tasks :: "task list"
  d_active_task_count :: nat
  d_earliest_due_date :: "date option"

definition employee_data :: "database \<Rightarrow> employee \<Rightarrow> employee_task_data" where
  "employee_data db e =
     \<lparr>d_employee = e,
      d_tasks = active_tasks db e,
      d_active_task_count = length (active_tasks db e),
      d_earliest_due_date = foldl earliest_step None (active_tasks db e)\<rparr>"

text \<open>
  The sort key \<open>(-x['active_task_count'], x['earliest_due_date'] or '9999-12-31')\<close>: its
  second component is a date (a date is always truthy) or the string.
\<close>

datatype sort_val = DateVal date | StrVal string

definition sort_key_of :: "employee_task_data \<Rightarrow> int \<times> sort_val" where
  "sort_key_of x =
     (- int (d_active_task_count x),
      case d_earliest_due_date x of None \<Rightarrow> StrVal ''9999-12-31'' | Some d \<Rightarrow> DateVal d)"

text \<open>
  Python's \<open><\<close>: defined between two dates and between two strings; between a date and a
  string it raises \<open>TypeError\<close>.
\<close>

fun sort_val_lt :: "sort_val \<Rightarrow> sort_val \<Rightarrow> error + bool" where
  "sort_val_lt (DateVal a) (DateVal b) = Inr (a < b)"
| "sort_val_lt (StrVal a) (StrVal b) = Inr (a < b)"
| "sort_val_lt _ _ = Inl TypeError"

text \<open>
  \<open><\<close> on two pairs: the first position where the components differ (by \<open>==\<close>, which never
  raises: a date and a string are just unequal) decides, by \<open><\<close> on the components there;
  equal pairs are not smaller.
\<close>

fun tuple_lt :: "int \<times> sort_val \<Rightarrow> int \<times> sort_val \<Rightarrow> error + bool" where
  "tuple_lt (a, u) (b, v) =
     (if a \<noteq> b then Inr (a < b) else if u \<noteq> v then sort_val_lt u v else Inr False)"

text \<open>
  \<open>sorted(xs, key=...)\<close>: a stable sort that only asks \<open>key(x) < key(y)\<close>. It is modelled as
  the insertion sort that CPython runs on short lists: the elements are taken from left to
  right, and each goes before the first element of the sorted part whose key is greater
  than its own. An exception in a comparison ends the sort.
\<close>

fun insort_py :: "('a \<Rightarrow> 'k) \<Rightarrow> ('k \<Rightarrow> 'k \<Rightarrow> error + bool) \<Rightarrow> 'a \<Rightarrow> 'a list \<Rightarrow> error + 'a list" where
  "insort_py key lt x [] = Inr [x]"
| "insort_py key lt x (y # ys) =
     (case lt (key x) (key y) of
        Inl e \<Rightarrow> Inl e
      | Inr True \<Rightarrow> Inr (x # y # ys)
      | Inr False \<Rightarrow>
          (case insort_py key lt x ys of Inl e \<Rightarrow> Inl e | Inr r \<Rightarrow> Inr (y # r)))"

fun sorted_from :: "('a \<Rightarrow> 'k) \<Rightarrow> ('k \<Rightarrow> 'k \<Rightarrow> error + bool) \<Rightarrow> 'a list \<Rightarrow> 'a list \<Rightarrow> error + 'a list" where
  "sorted_from key lt acc [] = Inr acc"
| "sorted_from key lt acc (x # xs) =
     (case insort_py key lt x acc of Inl e \<Rightarrow> Inl e | Inr acc' \<Rightarrow> sorted_from key lt acc' xs)"

definition sorted_py :: "('a \<Rightarrow> 'k) \<Rightarrow> ('k \<Rightarrow> 'k \<Rightarrow> error + bool) \<Rightarrow> 'a list \<Rightarrow> error + 'a list" where
  "sorted_py key lt xs = sorted_from key lt [] xs"

definition BusyEmployeesListAPIView_get_queryset :: "database \<Rightarrow> error + employee list" where
  "BusyEmployeesListAPIView_get_queryset db =
     (case sorted_py sort_key_of tuple_lt (map (employee_data db) (employees db)) of
        Inl e \<Rightarrow> Inl e
      | Inr sorted_employee_data \<Rightarrow> Inr (map d_employee sorted_employee_data))"

subsection \<open>What the ranking reports for a worker (serializers.py)\<close>

text \<open>
  \<open>TaskSummarySerializer\<close>: \<open>get_parent_task\<close> follows the parent reference; the framework
  raises \<open>DoesNotExist\<close> when the referenced row is missing.
\<close>

record task_summary =
  ts_id :: int
  ts_name :: ustr
  ts_due_date :: date
  ts_status :: string
  ts_parent_task :: "(int \<times> ustr \<times> date) option"

definition get_parent_task :: "database \<Rightarrow> task \<Rightarrow> error + (int \<times> ustr \<times> date) option" where
  "get_parent_task db t =
     (case parent_task t of
        None \<Rightarrow> Inr None
      | Some pid \<Rightarrow>
          (case find (\<lambda>p. task_id p = pid) (tasks db) of
             None \<Rightarrow> Inl DoesNotExist
           | Some p \<Rightarrow> Inr (Some (task_id p, name p, due_date p))))"

definition TaskSummarySerializer :: "database \<Rightarrow> task \<Rightarrow> error + task_summary" where
  "TaskSummarySerializer db t =
     (case get_parent_task db t of
        Inl e \<Rightarrow> Inl e
      | Inr p \<Rightarrow>
          Inr \<lparr>ts_id = task_id t, ts_name = name t, ts_due_date = due_date t,
               ts_status = status t, ts_parent_task = p\<rparr>)"

fun serialize_many :: "('a \<Rightarrow> error + 'b) \<Rightarrow> 'a list \<Rightarrow> error + 'b list" where
  "serialize_many f [] = Inr []"
| "serialize_many f (x # xs) =
     (case f x of
        Inl e \<Rightarrow> Inl e
      | Inr y \<Rightarrow> (case serialize_many f xs of Inl e \<Rightarrow> Inl e | Inr ys \<Rightarrow> Inr (y # ys)))"

text \<open>\<open>BusyEmployeeSerializer.get_tasks\<close> and \<open>get_active_task_count\<close>.\<close>

definition get_tasks :: "database \<Rightarrow> employee \<Rightarrow> error + task_summary list" where
  "get_tasks db e = serialize_many (TaskSummarySerializer db) (active_tasks db e)"

definition get_active_task_count :: "database \<Rightarrow> employee \<Rightarrow> nat" where
  "get_active_task_count db e = length (active_tasks db e)"

section \<open>Task list (views.py, TaskListAPIView)\<close>

text \<open>
  The query string is an ordered multi-dictionary: \<open>keys()\<close> gives each key once and
  \<open>get(key)\<close> gives the last value of the key, or \<open>None\<close>.
\<close>

type_synonym query_params = "(string \<times> string) list"

definition qd_keys :: "query_params \<Rightarrow> string list" where
  "qd_keys params = remdups (map fst params)"

definition qd_get :: "query_params \<Rightarrow> string \<Rightarrow> string option" where
  "qd_get params k =
     (case filter (\<lambda>kv. fst kv = k) params of [] \<Rightarrow> None | kv # kvs \<Rightarrow> Some (snd (last (kv # kvs))))"

text \<open>
  \<open>str.lower()\<close> on the ASCII letters. No character outside ASCII lowers to a character of
  \<open>true\<close>, \<open>false\<close>, \<open>1\<close> or \<open>0\<close>, the only strings the result is compared with.
\<close>

definition lower_char :: "char \<Rightarrow> char" where
  "lower_char c =
     (if 65 \<le> (of_char c :: nat) \<and> (of_char c :: nat) \<le> 90
      then char_of ((of_char c :: nat) + 32) else c)"

definition lower :: "string \<Rightarrow> string" where
  "lower s = map lower_char s"

definition Task_filterset_fields :: "string list" where
  "Task_filterset_fields = [''assigned_to'', ''status'', ''parent_task'', ''due_date'']"

text \<open>
  \<open>filter(subtasks__isnull=False).distinct()\<close> joins each task with its children and drops
  repeated rows; \<open>filter(subtasks__isnull=True)\<close> keeps the tasks that no row refers to as
  parent.
\<close>

definition subtasks_filter :: "query_params \<Rightarrow> database \<Rightarrow> task list \<Rightarrow> task list" where
  "subtasks_filter params db queryset =
     (case qd_get params ''subtasks'' of
        None \<Rightarrow> queryset
      | Some subtasks_param \<Rightarrow>
          if lower subtasks_param \<in> set [''true'', ''1'']
          then remdups [t. t \<leftarrow> queryset, c \<leftarrow> tasks db, parent_task c = Some (task_id t)]
          else if lower subtasks_param \<in> set [''false'', ''0'']
          then remdups
                 (filter (\<lambda>t. \<not> list_ex (\<lambda>c. parent_task c = Some (task_id t)) (tasks db)) queryset)
          else queryset)"

definition has_parent_filter :: "query_params \<Rightarrow> task list \<Rightarrow> task list" where
  "has_parent_filter params queryset =
     (case qd_get params ''has_parent'' of
        None \<Rightarrow> queryset
      | Some has_parent_param \<Rightarrow>
          if lower has_parent_param \<in> set [''true'', ''1'']
          then filter (\<lambda>t. parent_task t \<noteq> None) queryset
          else if lower has_parent_param \<in> set [''false'', ''0'']
          then filter (\<lambda>t. parent_task t = None) queryset
          else queryset)"

text \<open>
  The three sets of names are enumerated as duplicate-free lists, in the order of first
  occurrence (Python leaves the order in which a set is joined into the message open).
  The base queryset is \<open>Task.objects.all().order_by('id')\<close>.
\<close>

definition allowed_filters :: "string list" where
  "allowed_filters = remdups Task_filterset_fields"

definition requested_filters :: "query_params \<Rightarrow> string list" where
  "requested_filters params = filter (\<lambda>k. k \<notin> set [''subtasks'', ''has_parent'']) (qd_keys params)"

definition invalid_filters :: "query_params \<Rightarrow> string list" where
  "invalid_filters params = filter (\<lambda>k. k \<notin> set allowed_filters) (requested_filters params)"

definition TaskListAPIView_get_queryset :: "query_params \<Rightarrow> database \<Rightarrow> error + task list" where
  "TaskListAPIView_get_queryset params db =
     (if invalid_filters params \<noteq> []
      then Inl (ValidationError (Filter_not_possible (invalid_filters params) allowed_filters))
      else Inr (has_parent_filter params
                  (subtasks_filter params db (List.sort_key task_id (tasks db)))))"

section \<open>Employee list (views.py, EmployeeListAPIView)\<close>

text \<open>
  Both list views hand their queryset to \<open>DjangoFilterBackend\<close> with their
  \<open>filterset_fields\<close>. That backend is library code: for each declared field it reads that
  field's parameter and, when one is given and not empty, keeps the rows equal to it in
  that field (a value it cannot parse is an error of the library). It reads no other
  parameter. How a raw value is matched against a field of a row is the library's typed
  lookup, a parameter here: \<open>lookup field value\<close> is the row predicate, or \<open>None\<close> for a
  value that does not parse.
\<close>

definition backend_step ::
  "(string \<Rightarrow> string \<Rightarrow> ('r \<Rightarrow> bool) option) \<Rightarrow> query_params \<Rightarrow> error + 'r list \<Rightarrow> string \<Rightarrow> error + 'r list" where
  "backend_step lookup params acc field =
     (case acc of
        Inl e \<Rightarrow> Inl e
      | Inr rows \<Rightarrow>
          (case qd_get params field of
             None \<Rightarrow> Inr rows
           | Some v \<Rightarrow>
               if v = [] then Inr rows
               else (case lookup field v of
                       None \<Rightarrow> Inl (ValidationError (Invalid_filter_value field))
                     | Some keep \<Rightarrow> Inr (filter keep rows))))"

definition DjangoFilterBackend ::
  "string list \<Rightarrow> (string \<Rightarrow> string \<Rightarrow> ('r \<Rightarrow> bool) option) \<Rightarrow> query_params \<Rightarrow> 'r list \<Rightarrow> error + 'r list" where
  "DjangoFilterBackend filterset_fields lookup params queryset =
     foldl (backend_step lookup params) (Inr queryset) filterset_fields"

definition Employee_filterset_fields :: "string list" where
  "Employee_filterset_fields = [''position'', ''department'', ''hired_date'']"

text \<open>
  \<open>EmployeeListAPIView\<close> declares \<open>queryset = Employee.objects.all()\<close>, the backend and the
  fields, and nothing else: it has no \<open>get_queryset\<close> of its own.
\<close>

definition EmployeeListAPIView_list ::
  "(string \<Rightarrow> string \<Rightarrow> (employee \<Rightarrow> bool) option) \<Rightarrow> query_params \<Rightarrow> database \<Rightarrow> error + employee list" where
  "EmployeeListAPIView_list lookup params db =
     DjangoFilterBackend Employee_filterset_fields lookup params (employees db)"

definition TaskListAPIView_list ::
  "(string \<Rightarrow> string \<Rightarrow> (task \<Rightarrow> bool) option) \<Rightarrow> query_params \<Rightarrow> database \<Rightarrow> error + task list" where
  "TaskListAPIView_list lookup params db =
     (case TaskListAPIView_get_queryset params db of
        Inl e \<Rightarrow> Inl e
      | Inr queryset \<Rightarrow> DjangoFilterBackend Task_filterset_fields lookup params queryset)"

section \<open>Deletion (models.py, on\_delete=models.SET\_NULL)\<close>

text \<open>
  \<open>Task.assigned_to\<close> and \<open>Task.parent_task\<close> are both declared with
  \<open>on_delete=models.SET_NULL\<close>: deleting the referenced row sets the reference to \<open>NULL\<close> in
  every row that holds it. The destroy views answer \<open>Http404\<close> for a key that has no row.
\<close>

definition EmployeeDestroyAPIView_destroy :: "int \<Rightarrow> database \<Rightarrow> error + database" where
  "EmployeeDestroyAPIView_destroy pk db =
     (if \<not> list_ex (\<lambda>e. emp_id e = pk) (employees db) then Inl Http404
      else Inr \<lparr>employees = filter (\<lambda>e. emp_id e \<noteq> pk) (employees db),
                tasks = map (\<lambda>t. if assigned_to t = Some pk then t\<lparr>assigned_to := None\<rparr> else t)
                          (tasks db)\<rparr>)"

definition TaskDestroyAPIView_destroy :: "int \<Rightarrow> database \<Rightarrow> error + database" where
  "TaskDestroyAPIView_destroy pk db =
     (if \<not> list_ex (\<lambda>t. task_id t = pk) (tasks db) then Inl Http404
      else Inr \<lparr>employees = employees db,
                tasks = map (\<lambda>t. if parent_task t = Some pk then t\<lparr>parent_task := None\<rparr> else t)
                          (filter (\<lambda>t. task_id t \<noteq> pk) (tasks db))\<rparr>)"

section \<open>Field validation (serializers.py, EmployeeSerializer and TaskSerializer)\<close>

text \<open>
  \<open>str.isalpha()\<close>: the string has at least one character and all of them are letters.
  Which code points are letters is Unicode's table, a parameter here.
\<close>

definition isalpha :: "(nat \<Rightarrow> bool) \<Rightarrow> ustr \<Rightarrow> bool" where
  "isalpha alpha s \<longleftrightarrow> s \<noteq> [] \<and> list_all alpha s"

text \<open>
  The value a \<open>validate_<field>\<close> method receives is a string (a date), or \<open>None\<close> when the
  request gives \<open>null\<close> for a field that may be null: \<open>middle_name\<close> and \<open>hired_date\<close> are
  declared \<open>NULLABLE\<close>. \<open>None\<close> has no method \<open>isalpha\<close> (\<open>AttributeError\<close>) and does not
  compare with a date (\<open>TypeError\<close>). \<open>today\<close> is \<open>datetime.date.today()\<close>.
\<close>

definition validate_first_name :: "(nat \<Rightarrow> bool) \<Rightarrow> ustr option \<Rightarrow> error + ustr option" where
  "validate_first_name alpha v =
     (case v of
        None \<Rightarrow> Inl AttributeError
      | Some s \<Rightarrow> if \<not> isalpha alpha s then Inl (ValidationError First_name_letters) else Inr v)"

definition validate_last_name :: "(nat \<Rightarrow> bool) \<Rightarrow> ustr option \<Rightarrow> error + ustr option" where
  "validate_last_name alpha v =
     (case v of
        None \<Rightarrow> Inl AttributeError
      | Some s \<Rightarrow> if \<not> isalpha alpha s then Inl (ValidationError Last_name_letters) else Inr v)"

definition validate_middle_name :: "(nat \<Rightarrow> bool) \<Rightarrow> ustr option \<Rightarrow> error + ustr option" where
  "validate_middle_name alpha v =
     (case v of
        None \<Rightarrow> Inl AttributeError
      | Some s \<Rightarrow> if \<not> isalpha alpha s then Inl (ValidationError Middle_name_letters) else Inr v)"

definition validate_hired_date :: "date \<Rightarrow> date option \<Rightarrow> error + date option" where
  "validate_hired_date today v =
     (case v of
        None \<Rightarrow> Inl TypeError
      | Some d \<Rightarrow> if d > today then Inl (ValidationError Hired_date_future) else Inr v)"

definition validate_due_date :: "date \<Rightarrow> date option \<Rightarrow> error + date option" where
  "validate_due_date today v =
     (case v of
        None \<Rightarrow> Inl TypeError
      | Some d \<Rightarrow> if d < today then Inl (ValidationError Due_date_past) else Inr v)"

text \<open>
  A request, as the serializer hands it to the \<open>validate_<field>\<close> methods after the
  framework's own field checks: for each field, \<open>None\<close> when the request leaves the field
  out (the method is not called), \<open>Some v\<close> when the method is called with \<open>v\<close>.
\<close>

record employee_request =
  r_last_name :: "ustr option option"
  r_first_name :: "ustr option option"
  r_middle_name :: "ustr option option"
  r_hired_date :: "date option option"

record task_request =
  r_due_date :: "date option option"

text \<open>
  The serializer goes through the fields in their declared order. A \<open>ValidationError\<close> of a
  method is stored under the field's name and the next field is tried; any other exception
  leaves the serializer at once. At the end a non-empty dictionary of messages is raised.
\<close>

definition field_step ::
  "string \<Rightarrow> ('a option \<Rightarrow> error + 'a option) \<Rightarrow> 'a option option \<Rightarrow>
   (string \<times> message) list \<Rightarrow> error + (string \<times> message) list" where
  "field_step field_name validate_method given errors =
     (case given of
        None \<Rightarrow> Inr errors
      | Some v \<Rightarrow>
          (case validate_method v of
             Inr _ \<Rightarrow> Inr errors
           | Inl (ValidationError m) \<Rightarrow> Inr (errors @ [(field_name, m)])
           | Inl e \<Rightarrow> Inl e))"

definition EmployeeSerializer_is_valid ::
  "(nat \<Rightarrow> bool) \<Rightarrow> date \<Rightarrow> employee_request \<Rightarrow> error + employee_request" where
  "EmployeeSerializer_is_valid alpha today req =
     (case field_step ''last_name'' (validate_last_name alpha) (r_last_name req) [] of
        Inl e \<Rightarrow> Inl e
      | Inr errors1 \<Rightarrow>
     (case field_step ''first_name'' (validate_first_name alpha) (r_first_name req) errors1 of
        Inl e \<Rightarrow> Inl e
      | Inr errors2 \<Rightarrow>
     (case field_step ''middle_name'' (validate_middle_name alpha) (r_middle_name req) errors2 of
        Inl e \<Rightarrow> Inl e
      | Inr errors3 \<Rightarrow>
     (case field_step ''hired_date'' (validate_hired_date today) (r_hired_date req) errors3 of
        Inl e \<Rightarrow> Inl e
      | Inr errors4 \<Rightarrow>
          if errors4 \<noteq> [] then Inl (ValidationErrors errors4) else Inr req))))"

definition TaskSerializer_is_valid :: "date \<Rightarrow> task_request \<Rightarrow> error + task_request" where
  "TaskSerializer_is_valid today req =
     (case field_step ''due_date'' (validate_due_date today) (r_due_date req) [] of
        Inl e \<Rightarrow> Inl e
      | Inr errors1 \<Rightarrow> if errors1 \<noteq> [] then Inl (ValidationErrors errors1) else Inr req)"

text \<open>
  The create and update views validate first and write only then
  (\<open>serializer.is_valid(raise_exception=True)\<close>, then \<open>serializer.save()\<close>). The write itself
  is the framework's, a parameter here.
\<close>

definition write_view ::
  "('req \<Rightarrow> error + 'req) \<Rightarrow> ('req \<Rightarrow> database \<Rightarrow> database) \<Rightarrow> 'req \<Rightarrow> database \<Rightarrow>
   (error + 'req) \<times> database" where
  "write_view is_valid save req db =
     (case is_valid req of
        Inl e \<Rightarrow> (Inl e, db)
      | Inr validated \<Rightarrow> (Inr validated, save validated db))"

section \<open>Example snapshots\<close>

definition ivanov :: employee where
  "ivanov = \<lparr>emp_id = 1, last_name = ascii ''Ivanov'', first_name = ascii ''Ivan'',
     middle_name = None, position = ascii ''dev'', department = None, hired_date = None\<rparr>"

definition petrov :: employee where
  "petrov = \<lparr>emp_id = 2, last_name = ascii ''Petrov'', first_name = ascii ''Petr'',
     middle_name = None, position = ascii ''dev'', department = None, hired_date = None\<rparr>"

definition sidorova :: employee where
  "sidorova = \<lparr>emp_id = 3, last_name = ascii ''Sidorova'', first_name = ascii ''Anna'',
     middle_name = None, position = ascii ''qa'', department = None, hired_date = None\<rparr>"

definition mk_task :: "int \<Rightarrow> int option \<Rightarrow> int option \<Rightarrow> date \<Rightarrow> string \<Rightarrow> task" where
  "mk_task i p a d s =
     \<lparr>task_id = i, name = ascii ''task'', description = None, parent_task = p,
      assigned_to = a, due_date = d, status = s\<rparr>"

definition kuznetsov :: employee where
  "kuznetsov = \<lparr>emp_id = 4, last_name = ascii ''Kuznetsov'', first_name = ascii ''Oleg'',
     middle_name = None, position = ascii ''qa'', department = None, hired_date = None\<rparr>"

text \<open>The snapshot of the repository's ranking test, with a fourth worker who has no active task.\<close>

definition busy_db :: database where
  "busy_db = \<lparr>employees = [ivanov, petrov, sidorova, kuznetsov],
     tasks = [mk_task 1 None (Some 1) (2024, 9, 1) ''new'',
              mk_task 2 None (Some 1) (2024, 9, 10) ''in_progress'',
              mk_task 3 None (Some 2) (2024, 9, 15) ''new'',
              mk_task 4 None (Some 3) (2024, 8, 1) ''new'',
              mk_task 5 None (Some 3) (2024, 8, 15) ''in_progress'',
              mk_task 6 None (Some 4) (2024, 7, 1) ''completed'']\<rparr>"

text \<open>The snapshot of the repository's important-tasks test.\<close>

definition important_db :: database where
  "important_db = \<lparr>employees = [ivanov],
     tasks = [mk_task 1 None (Some 1) (2024, 9, 1) ''in_progress'',
              mk_task 2 (Some 1) (Some 1) (2024, 9, 10) ''new'',
              mk_task 3 None (Some 1) (2024, 9, 15) ''new'']\<rparr>"

text \<open>
  A parent in progress that Ivanov works on, its new and unassigned child, and one more
  task of Ivanov; Petrov has no task.
\<close>

definition gate_parent :: task where
  "gate_parent = mk_task 1 None (Some 1) (2024, 9, 1) ''in_progress''"

definition gate_item :: task where
  "gate_item = mk_task 2 (Some 1) None (2024, 9, 10) ''new''"

definition gate_db :: database where
  "gate_db = \<lparr>employees = [ivanov, petrov],
     tasks = [gate_parent, gate_item, mk_task 3 None (Some 1) (2024, 9, 15) ''completed'']\<rparr>"

text \<open>A task that is its own parent: the parent reference is not checked against cycles.\<close>

definition loop_task :: task where
  "loop_task = mk_task 1 (Some 1) None (2024, 9, 1) ''new''"

definition loop_db :: database where
  "loop_db = \<lparr>employees = [], tasks = [loop_task]\<rparr>"

text \<open>The letters of ASCII, as an example of the table of letters.\<close>

definition ascii_letter :: "nat \<Rightarrow> bool" where
  "ascii_letter c \<longleftrightarrow> (65 \<le> c \<and> c \<le> 90) \<or> (97 \<le> c \<and> c \<le> 122)"

text \<open>
  Two requests for a new worker with alphabetic names: one gives \<open>null\<close> as hire date and
  leaves the middle name out, the other gives \<open>null\<close> as middle name.
\<close>

definition null_hired_request :: employee_request where
  "null_hired_request =
     \<lparr>r_last_name = Some (Some (ascii ''Ivanov'')), r_first_name = Some (Some (ascii ''Ivan'')),
      r_middle_name = None, r_hired_date = Some None\<rparr>"

definition null_middle_request :: employee_request where
  "null_middle_request =
     \<lparr>r_last_name = Some (Some (ascii ''Ivanov'')), r_first_name = Some (Some (ascii ''Ivan'')),
      r_middle_name = Some None, r_hired_date = None\<rparr>"

section \<open>Notions of the specification and of the proofs\<close>

text \<open>
  The earliest due date among a worker's active items, absent when there is none, and the
  order on such dates in which an absent date comes last.
\<close>

definition earliest_active :: "database \<Rightarrow> employee \<Rightarrow> date option" where
  "earliest_active db e =
     (if active_tasks db e = [] then None else Some (Min (due_date ` set (active_tasks db e))))"

fun absent_last_le :: "date option \<Rightarrow> date option \<Rightarrow> bool" where
  "absent_last_le (Some a) (Some b) = (a \<le> b)"
| "absent_last_le _ None = True"
| "absent_last_le None (Some b) = False"

text \<open>
  The keys that the ranking builds: a date under a negative first component, the string
  under zero. On them the comparison of the code agrees with a linear order, \<open>rank\<close>.
\<close>

definition key_ok :: "int \<times> sort_val \<Rightarrow> bool" where
  "key_ok k \<longleftrightarrow>
     (case snd k of DateVal d \<Rightarrow> fst k < 0 | StrVal s \<Rightarrow> fst k = 0 \<and> s = ''9999-12-31'')"

definition rank :: "int \<times> sort_val \<Rightarrow> int \<times> nat \<times> date" where
  "rank k = (fst k, case snd k of DateVal d \<Rightarrow> (0, d) | StrVal s \<Rightarrow> (1, (0, 0, 0)))"

text \<open>A task has children when some row names it as parent.\<close>

definition has_children :: "database \<Rightarrow> task \<Rightarrow> bool" where
  "has_children db t \<longleftrightarrow> (\<exists>c \<in> set (tasks db). parent_task c = Some (task_id t))"

section \<open>The important-items filter\<close>

text \<open>
  Claim C2. A work item is in the important-items output if and only if its own status
  is exactly "new" and it has a parent work item whose status is exactly "in\_progress";
  in particular an item without a parent is never in the output, whatever its status.
\<close>

theorem important_tasks_iff:
  "(t \<in> set (ImportantTasksListAPIView_get_queryset db) \<longleftrightarrow>
      t \<in> set (tasks db) \<and> status t = ''new'' \<and>
      (\<exists>p \<in> set (tasks db). parent_task t = Some (task_id p) \<and> status p = ''in_progress''))
   \<and> (parent_task t = None \<longrightarrow> t \<notin> set (ImportantTasksListAPIView_get_queryset db))"
  by (auto simp: ImportantTasksListAPIView_get_queryset_def)

theorem important_tasks_iff_witness:
  "mk_task 2 (Some 1) (Some 1) (2024, 9, 10) ''new''
     \<in> set (ImportantTasksListAPIView_get_queryset important_db)
   \<and> mk_task 3 None (Some 1) (2024, 9, 15) ''new''
     \<notin> set (ImportantTasksListAPIView_get_queryset important_db)"
  using important_tasks_iff [of "mk_task 2 (Some 1) (Some 1) (2024, 9, 10) ''new''" important_db]
    important_tasks_iff [of "mk_task 3 None (Some 1) (2024, 9, 15) ''new''" important_db]
  by (simp add: important_db_def mk_task_def)

section \<open>The workload ranking\<close>

subsection \<open>The earliest due date\<close>

lemma earliest_step_Some: "foldl earliest_step (Some d) ts \<noteq> None"
  by (induction ts arbitrary: d) (auto simp: earliest_step_def)

lemma earliest_None_iff: "foldl earliest_step None ts = None \<longleftrightarrow> ts = []"
  by (cases ts) (auto simp: earliest_step_def earliest_step_Some)

lemma earliest_from: "foldl earliest_step (Some d) ts = Some (Min (insert d (due_date ` set ts)))"
proof (induction ts arbitrary: d)
  case Nil
  then show ?case by simp
next
  case (Cons t ts)
  have "earliest_step (Some d) t = Some (min (due_date t) d)"
    by (auto simp: earliest_step_def min_def)
  moreover have "Min (insert (min (due_date t) d) (due_date ` set ts)) = Min (insert d (due_date ` set (t # ts)))"
    by (cases "ts = []") (simp_all add: min.assoc min.commute)
  ultimately show ?case using Cons[of "min (due_date t) d"] by simp
qed

lemma earliest_Min: "ts \<noteq> [] \<Longrightarrow> foldl earliest_step None ts = Some (Min (due_date ` set ts))"
  by (cases ts) (auto simp: earliest_step_def earliest_from)

subsection \<open>The sort never fails and sorts\<close>

lemma key_ok_sort_key: "key_ok (sort_key_of (employee_data db e))"
  by (cases "active_tasks db e = []")
     (simp_all add: key_ok_def sort_key_of_def employee_data_def earliest_Min)

lemma tuple_lt_rank: "key_ok k1 \<Longrightarrow> key_ok k2 \<Longrightarrow> tuple_lt k1 k2 = Inr (rank k1 < rank k2)"
  by (cases k1; cases k2) (auto simp: key_ok_def rank_def split: sort_val.splits)

lemma insort_py_total:
  assumes "\<And>y. y \<in> set ys \<Longrightarrow> lt (key x) (key y) = Inr (r x < r y)"
  shows "\<exists>zs. insort_py key lt x ys = Inr zs \<and> mset zs = mset (x # ys) \<and>
           (sorted (map r ys) \<longrightarrow> sorted (map r zs))"
  using assms
proof (induction ys)
  case Nil
  then show ?case by simp
next
  case (Cons y ys)
  show ?case
  proof (cases "r x < r y")
    case True
    then show ?thesis using Cons.prems by (auto simp: less_imp_le order.trans[OF less_imp_le])
  next
    case False
    from Cons obtain zs where zs: "insort_py key lt x ys = Inr zs" "mset zs = mset (x # ys)"
      "sorted (map r ys) \<longrightarrow> sorted (map r zs)" by auto
    have zset: "set zs = insert x (set ys)" using zs(2) by (metis mset_eq_setD list.simps(15))
    have "lt (key x) (key y) = Inr False" using Cons.prems False by simp
    then show ?thesis using False zs zset by (auto simp: not_less)
  qed
qed

lemma sorted_from_total:
  assumes "\<And>x y. P x \<Longrightarrow> P y \<Longrightarrow> lt (key x) (key y) = Inr (r x < r y)"
  shows "\<forall>x \<in> set acc \<union> set xs. P x \<Longrightarrow> sorted (map r acc) \<Longrightarrow>
         \<exists>zs. sorted_from key lt acc xs = Inr zs \<and> mset zs = mset acc + mset xs \<and> sorted (map r zs)"
proof (induction xs arbitrary: acc)
  case Nil
  then show ?case by simp
next
  case (Cons x xs)
  have "\<And>y. y \<in> set acc \<Longrightarrow> lt (key x) (key y) = Inr (r x < r y)"
    using assms Cons.prems(1) by simp
  from insort_py_total[of acc lt key x r, OF this] Cons.prems(2)
  obtain acc' where a: "insort_py key lt x acc = Inr acc'" "mset acc' = mset (x # acc)" "sorted (map r acc')"
    by blast
  have "set acc' = insert x (set acc)" using a(2) by (metis mset_eq_setD list.simps(15))
  then have "\<forall>x \<in> set acc' \<union> set xs. P x" using Cons.prems(1) by auto
  from Cons.IH[OF this a(3)] obtain zs where "sorted_from key lt acc' xs = Inr zs" "mset zs = mset acc' + mset xs" "sorted (map r zs)" by blast
  then show ?case using a by simp
qed

lemma rank_sort_key:
  "rank (sort_key_of (employee_data db e)) =
     (- int (length (active_tasks db e)),
      if active_tasks db e = [] then (1, (0, 0, 0))
      else (0, Min (due_date ` set (active_tasks db e))))"
  by (simp add: rank_def sort_key_of_def employee_data_def earliest_Min)

lemma busy_queryset_total:
  "\<exists>out. BusyEmployeesListAPIView_get_queryset db = Inr out \<and> mset out = mset (employees db) \<and>
     sorted (map (\<lambda>e. rank (sort_key_of (employee_data db e))) out)"
proof -
  let ?P = "\<lambda>x. x \<in> employee_data db ` UNIV"
  have lt: "\<And>x y. ?P x \<Longrightarrow> ?P y \<Longrightarrow>
      tuple_lt (sort_key_of x) (sort_key_of y) = Inr (rank (sort_key_of x) < rank (sort_key_of y))"
    using key_ok_sort_key tuple_lt_rank by blast
  have "\<exists>zs. sorted_from sort_key_of tuple_lt [] (map (employee_data db) (employees db)) = Inr zs \<and>
          mset zs = mset [] + mset (map (employee_data db) (employees db)) \<and>
          sorted (map (\<lambda>x. rank (sort_key_of x)) zs)"
    by (rule sorted_from_total[where P = ?P and key = sort_key_of and lt = tuple_lt
          and r = "\<lambda>x. rank (sort_key_of x)"]) (auto simp: lt)
  then obtain zs where zs: "sorted_py sort_key_of tuple_lt (map (employee_data db) (employees db)) = Inr zs"
    "mset zs = mset (map (employee_data db) (employees db))" "sorted (map (\<lambda>x. rank (sort_key_of x)) zs)"
    by (auto simp: sorted_py_def)
  have orig: "\<And>z. z \<in> set zs \<Longrightarrow> employee_data db (d_employee z) = z"
  proof -
    fix z assume "z \<in> set zs"
    then have "z \<in> set (map (employee_data db) (employees db))" using zs(2) by (metis mset_eq_setD)
    then show "employee_data db (d_employee z) = z" by (auto simp: employee_data_def)
  qed
  have "mset (map d_employee zs) = image_mset d_employee (mset (map (employee_data db) (employees db)))"
    using zs(2) by (metis mset_map)
  also have "\<dots> = mset (employees db)"
    by (simp add: image_mset.compositionality o_def employee_data_def)
  finally have m: "mset (map d_employee zs) = mset (employees db)" .
  have "map (\<lambda>e. rank (sort_key_of (employee_data db e))) (map d_employee zs) = map (\<lambda>x. rank (sort_key_of x)) zs"
    using orig by (simp add: o_def)
  then have "sorted (map (\<lambda>e. rank (sort_key_of (employee_data db e))) (map d_employee zs))"
    using zs(3) by (simp only:)
  then show ?thesis using zs(1) m by (simp add: BusyEmployeesListAPIView_get_queryset_def del: map_map)
qed

lemmas busy_eval_defs =
  busy_db_def ivanov_def petrov_def sidorova_def kuznetsov_def mk_task_def
  BusyEmployeesListAPIView_get_queryset_def sorted_py_def employee_data_def active_tasks_def
  sort_key_of_def earliest_step_def ascii_def

lemma busy_db_ranking:
  "BusyEmployeesListAPIView_get_queryset busy_db = Inr [sidorova, ivanov, petrov, kuznetsov]"
  by (simp add: busy_eval_defs)

text \<open>
  Claim C3. For every collection of workers and work items the ranking lists the workers
  so that the number of active items (status new or in\_progress) never increases along
  the output, and among workers with the same number the earliest due date over their
  active items never decreases, an absent date coming after every real one.
\<close>

theorem ranking_sorted:
  "\<exists>out. BusyEmployeesListAPIView_get_queryset db = Inr out \<and>
     (\<forall>i j. i < j \<and> j < length out \<longrightarrow>
        length (active_tasks db (out ! j)) \<le> length (active_tasks db (out ! i)) \<and>
        (length (active_tasks db (out ! i)) = length (active_tasks db (out ! j)) \<longrightarrow>
           absent_last_le (earliest_active db (out ! i)) (earliest_active db (out ! j))))"
proof -
  from busy_queryset_total[of db] obtain out where
    out: "BusyEmployeesListAPIView_get_queryset db = Inr out"
    and srt: "sorted (map (\<lambda>e. rank (sort_key_of (employee_data db e))) out)"
    by blast
  have "length (active_tasks db (out ! j)) \<le> length (active_tasks db (out ! i)) \<and>
        (length (active_tasks db (out ! i)) = length (active_tasks db (out ! j)) \<longrightarrow>
           absent_last_le (earliest_active db (out ! i)) (earliest_active db (out ! j)))"
    if "i < j" "j < length out" for i j
  proof -
    have "rank (sort_key_of (employee_data db (out ! i))) \<le> rank (sort_key_of (employee_data db (out ! j)))"
      using sorted_nth_mono[OF srt, of i j] that by simp
    then show ?thesis
      by (auto simp: rank_sort_key earliest_active_def split: if_splits)
  qed
  with out show ?thesis by blast
qed

theorem ranking_sorted_witness:
  "BusyEmployeesListAPIView_get_queryset busy_db = Inr [sidorova, ivanov, petrov, kuznetsov] \<and>
   length (active_tasks busy_db ivanov) \<le> length (active_tasks busy_db sidorova) \<and>
   absent_last_le (earliest_active busy_db sidorova) (earliest_active busy_db ivanov)"
proof -
  from ranking_sorted[of busy_db] obtain out where
    out: "BusyEmployeesListAPIView_get_queryset busy_db = Inr out"
    and ord: "\<forall>i j. i < j \<and> j < length out \<longrightarrow>
        length (active_tasks busy_db (out ! j)) \<le> length (active_tasks busy_db (out ! i)) \<and>
        (length (active_tasks busy_db (out ! i)) = length (active_tasks busy_db (out ! j)) \<longrightarrow>
           absent_last_le (earliest_active busy_db (out ! i)) (earliest_active busy_db (out ! j)))"
    by blast
  have eq: "out = [sidorova, ivanov, petrov, kuznetsov]"
    using out by (simp add: busy_eval_defs)
  have len: "length (active_tasks busy_db ivanov) = length (active_tasks busy_db sidorova)"
    by (simp add: busy_eval_defs)
  from ord[rule_format, of 0 1] eq len show ?thesis
    using out by simp
qed

text \<open>
  Claim C9. Every worker is in the ranking, exactly as often as in the worker table; a
  worker with no active item is there too and is reported with active count 0 and an
  empty list of active items.
\<close>

theorem every_worker_ranked:
  "\<exists>out. BusyEmployeesListAPIView_get_queryset db = Inr out \<and> mset out = mset (employees db) \<and>
     (\<forall>e \<in> set (employees db). e \<in> set out \<and>
        (active_tasks db e = [] \<longrightarrow> get_active_task_count db e = 0 \<and> get_tasks db e = Inr []))"
proof -
  from busy_queryset_total[of db] obtain out where
    out: "BusyEmployeesListAPIView_get_queryset db = Inr out" "mset out = mset (employees db)"
    by blast
  have "set out = set (employees db)" using out(2) by (rule mset_eq_setD)
  then show ?thesis using out
    by (simp add: get_active_task_count_def get_tasks_def)
qed

theorem every_worker_ranked_witness:
  "kuznetsov \<in> set (employees busy_db) \<and> active_tasks busy_db kuznetsov = [] \<and>
   (\<exists>out. BusyEmployeesListAPIView_get_queryset busy_db = Inr out \<and> kuznetsov \<in> set out) \<and>
   get_active_task_count busy_db kuznetsov = 0 \<and> get_tasks busy_db kuznetsov = Inr []"
proof -
  have a: "kuznetsov \<in> set (employees busy_db)"
    by (simp add: busy_db_def)
  have b: "active_tasks busy_db kuznetsov = []"
    by (simp add: busy_eval_defs)
  from every_worker_ranked[of busy_db] a b show ?thesis by blast
qed

text \<open>
  Claim C10. The computed earliest due date of a worker is absent exactly when the
  worker's active count is 0. Hence two workers with the same count have both a date or
  both the string '9999-12-31' as second key component, the comparison of any two keys
  is defined (it never raises \<open>TypeError\<close>), and the ranking returns on every snapshot.
\<close>

theorem sort_key_well_defined:
  "(d_earliest_due_date (employee_data db e) = None \<longleftrightarrow> d_active_task_count (employee_data db e) = 0)
   \<and> (d_active_task_count (employee_data db e1) = d_active_task_count (employee_data db e2) \<longrightarrow>
        (\<exists>a b. snd (sort_key_of (employee_data db e1)) = DateVal a \<and>
               snd (sort_key_of (employee_data db e2)) = DateVal b) \<or>
        (snd (sort_key_of (employee_data db e1)) = StrVal ''9999-12-31'' \<and>
         snd (sort_key_of (employee_data db e2)) = StrVal ''9999-12-31''))
   \<and> (\<exists>b. tuple_lt (sort_key_of (employee_data db e1)) (sort_key_of (employee_data db e2)) = Inr b)
   \<and> (\<exists>out. BusyEmployeesListAPIView_get_queryset db = Inr out)"
proof -
  have 1: "d_earliest_due_date (employee_data db e) = None \<longleftrightarrow> d_active_task_count (employee_data db e) = 0"
    by (simp add: employee_data_def earliest_None_iff)
  have 2: "d_active_task_count (employee_data db e1) = d_active_task_count (employee_data db e2) \<longrightarrow>
        (\<exists>a b. snd (sort_key_of (employee_data db e1)) = DateVal a \<and>
               snd (sort_key_of (employee_data db e2)) = DateVal b) \<or>
        (snd (sort_key_of (employee_data db e1)) = StrVal ''9999-12-31'' \<and>
         snd (sort_key_of (employee_data db e2)) = StrVal ''9999-12-31'')"
    using key_ok_sort_key[of db e1] key_ok_sort_key[of db e2]
    by (auto simp: key_ok_def sort_key_of_def split: sort_val.splits option.splits)
  have 3: "\<exists>b. tuple_lt (sort_key_of (employee_data db e1)) (sort_key_of (employee_data db e2)) = Inr b"
    using tuple_lt_rank[OF key_ok_sort_key key_ok_sort_key] by blast
  have 4: "\<exists>out. BusyEmployeesListAPIView_get_queryset db = Inr out"
    using busy_queryset_total[of db] by blast
  from 1 2 3 4 show ?thesis by blast
qed

theorem sort_key_well_defined_witness:
  "d_active_task_count (employee_data busy_db ivanov) = d_active_task_count (employee_data busy_db sidorova) \<and>
   snd (sort_key_of (employee_data busy_db ivanov)) = DateVal (2024, 9, 1) \<and>
   snd (sort_key_of (employee_data busy_db sidorova)) = DateVal (2024, 8, 1) \<and>
   tuple_lt (sort_key_of (employee_data busy_db ivanov)) (sort_key_of (employee_data busy_db sidorova)) = Inr False \<and>
   d_earliest_due_date (employee_data busy_db kuznetsov) = None \<and>
   d_active_task_count (employee_data busy_db kuznetsov) = 0"
proof -
  have tie: "d_active_task_count (employee_data busy_db ivanov) = d_active_task_count (employee_data busy_db sidorova)"
    by (simp add: busy_eval_defs)
  have none: "d_earliest_due_date (employee_data busy_db kuznetsov) = None"
    by (simp add: busy_eval_defs)
  have k1: "snd (sort_key_of (employee_data busy_db ivanov)) = DateVal (2024, 9, 1)"
    by (simp add: busy_eval_defs)
  have k2: "snd (sort_key_of (employee_data busy_db sidorova)) = DateVal (2024, 8, 1)"
    by (simp add: busy_eval_defs)
  have lt: "tuple_lt (sort_key_of (employee_data busy_db ivanov)) (sort_key_of (employee_data busy_db sidorova)) = Inr False"
    by (simp add: busy_eval_defs)
  from sort_key_well_defined[of busy_db kuznetsov ivanov sidorova] tie none k1 k2 lt
  show ?thesis by simp
qed

section \<open>Eligible workers of an important item\<close>

lemmas gate_eval_defs =
  gate_db_def gate_parent_def gate_item_def ivanov_def petrov_def mk_task_def
  get_potential_employees_def min_task_count_def min_step_def task_count_def suitable_step_def
  suitable_def parent_task_employee_def employee_name_def strip_def is_space_def ascii_def
  str_int_def ImportantTasksListAPIView_get_queryset_def

lemma min_step_Some: "foldl (min_step db) (Some k) es = Some (Min (insert k (task_count db ` set es)))"
proof (induction es arbitrary: k)
  case Nil
  then show ?case by simp
next
  case (Cons e es)
  have "min_step db (Some k) e = Some (min (task_count db e) k)"
    by (auto simp: min_step_def min_def)
  moreover have "Min (insert (min (task_count db e) k) (task_count db ` set es)) =
                 Min (insert k (task_count db ` set (e # es)))"
    by (cases "es = []") (simp_all add: min.assoc min.commute)
  ultimately show ?case using Cons[of "min (task_count db e) k"] by simp
qed

lemma min_task_count_Min:
  "employees db \<noteq> [] \<Longrightarrow> min_task_count db = Some (Min (task_count db ` set (employees db)))"
  by (cases "employees db") (auto simp: min_task_count_def min_step_def min_step_Some)

lemma set_suitable_loop:
  "set (foldl (suitable_step db t m) acc es) = set acc \<union> employee_name ` {e \<in> set es. suitable db t m e}"
  by (induction es arbitrary: acc) (auto simp: suitable_step_def)

lemma distinct_suitable_loop:
  "distinct acc \<Longrightarrow> distinct (foldl (suitable_step db t m) acc es)"
  by (induction es arbitrary: acc) (auto simp: suitable_step_def)

lemma potential_employees_code:
  "set (get_potential_employees db t) =
     employee_name ` {e \<in> set (employees db).
        task_count db e = Min (task_count db ` set (employees db)) \<or>
        ((\<exists>c \<in> set (tasks db). parent_task c = Some (task_id t) \<and> assigned_to c = Some (emp_id e)) \<and>
         task_count db e \<le> Min (task_count db ` set (employees db)) + 2)}"
proof (cases "employees db = []")
  case True
  then show ?thesis by (simp add: get_potential_employees_def)
next
  case False
  then show ?thesis
    by (simp add: get_potential_employees_def min_task_count_Min set_suitable_loop suitable_def
        parent_task_employee_def list_ex_iff)
qed

text \<open>
  Claim C1. The claim makes a worker eligible when the worker's total count is the
  minimum, or when the worker is assigned to the item's parent and the count is at most
  the minimum plus 2. The code decides the second case by the tasks whose parent is the
  item itself (lemma \<open>potential_employees_code\<close>). On the snapshot \<open>gate_db\<close> the item is
  important, Ivanov is assigned to its parent and has 2 tasks, the minimum is 0, and the
  code lists Petrov only.
\<close>

theorem potential_employees_uses_subtasks:
  "gate_item \<in> set (ImportantTasksListAPIView_get_queryset gate_db) \<and>
   parent_task gate_item = Some (task_id gate_parent) \<and>
   assigned_to gate_parent = Some (emp_id ivanov) \<and>
   task_count gate_db ivanov = 2 \<and> task_count gate_db petrov = 0 \<and>
   min_task_count gate_db = Some 0 \<and>
   get_potential_employees gate_db gate_item = [employee_name petrov] \<and>
   employee_name ivanov \<noteq> employee_name petrov"
  by (simp add: gate_eval_defs)

section \<open>Deleting a worker or a work item\<close>

text \<open>
  Claim C5. Deleting a worker leaves every work item in place: the rows keep their
  number and their identities, and a work item that was assigned to the worker is still
  there with the assignment cleared and every other field as before.
\<close>

theorem delete_employee_keeps_tasks:
  assumes "e \<in> set (employees db)"
  shows "\<exists>db'. EmployeeDestroyAPIView_destroy (emp_id e) db = Inr db' \<and>
           length (tasks db') = length (tasks db) \<and>
           map task_id (tasks db') = map task_id (tasks db) \<and>
           (\<forall>t \<in> set (tasks db). assigned_to t = Some (emp_id e) \<longrightarrow>
                t\<lparr>assigned_to := None\<rparr> \<in> set (tasks db'))"
proof -
  have "list_ex (\<lambda>x. emp_id x = emp_id e) (employees db)"
    using assms by (auto simp: list_ex_iff)
  then show ?thesis
    by (auto simp: EmployeeDestroyAPIView_destroy_def o_def intro!: map_cong)
qed

theorem delete_employee_keeps_tasks_witness:
  "ivanov \<in> set (employees busy_db) \<and>
   mk_task 1 None (Some 1) (2024, 9, 1) ''new'' \<in> set (tasks busy_db) \<and>
   (\<exists>db'. EmployeeDestroyAPIView_destroy 1 busy_db = Inr db' \<and> length (tasks db') = 6 \<and>
      mk_task 1 None None (2024, 9, 1) ''new'' \<in> set (tasks db'))"
proof -
  have a: "ivanov \<in> set (employees busy_db)"
    by (simp add: busy_db_def)
  have b: "mk_task 1 None (Some 1) (2024, 9, 1) ''new'' \<in> set (tasks busy_db)"
    by (simp add: busy_db_def)
  have c: "(mk_task 1 None (Some 1) (2024, 9, 1) ''new'')\<lparr>assigned_to := None\<rparr>
             = mk_task 1 None None (2024, 9, 1) ''new''"
    by (simp add: mk_task_def)
  have d: "emp_id ivanov = 1" "assigned_to (mk_task 1 None (Some 1) (2024, 9, 1) ''new'') = Some 1"
    "length (tasks busy_db) = 6"
    by (simp_all add: ivanov_def mk_task_def busy_db_def)
  from delete_employee_keeps_tasks[OF a] obtain db' where
    "EmployeeDestroyAPIView_destroy (emp_id ivanov) busy_db = Inr db'"
    "length (tasks db') = length (tasks busy_db)"
    "\<forall>t \<in> set (tasks busy_db). assigned_to t = Some (emp_id ivanov) \<longrightarrow>
        t\<lparr>assigned_to := None\<rparr> \<in> set (tasks db')"
    by blast
  with a b c d show ?thesis by (metis (no_types, lifting))
qed

text \<open>
  Claim C6, as stated, fails when the deleted work item is its own parent: it is then one
  of the items whose parent reference is the deleted item, and it is not left in place.
\<close>

theorem delete_self_parent_counterexample:
  "loop_task \<in> set (tasks loop_db) \<and> parent_task loop_task = Some (task_id loop_task) \<and>
   TaskDestroyAPIView_destroy (task_id loop_task) loop_db = Inr \<lparr>employees = [], tasks = []\<rparr>"
  by (simp add: loop_db_def loop_task_def mk_task_def TaskDestroyAPIView_destroy_def)

text \<open>
  Claim C6, amended. Deleting a work item P removes the rows with P's identity and no
  other row; every other work item whose parent reference is P is still there, with the
  parent reference cleared and every other field as before.
\<close>

theorem delete_task_keeps_other_children:
  assumes "p \<in> set (tasks db)"
  shows "\<exists>db'. TaskDestroyAPIView_destroy (task_id p) db = Inr db' \<and>
           map task_id (tasks db') = filter (\<lambda>i. i \<noteq> task_id p) (map task_id (tasks db)) \<and>
           (\<forall>c \<in> set (tasks db). parent_task c = Some (task_id p) \<and> task_id c \<noteq> task_id p \<longrightarrow>
                c\<lparr>parent_task := None\<rparr> \<in> set (tasks db'))"
proof -
  have "list_ex (\<lambda>t. task_id t = task_id p) (tasks db)"
    using assms by (auto simp: list_ex_iff)
  then show ?thesis
    by (auto simp: TaskDestroyAPIView_destroy_def o_def filter_map intro!: map_cong)
qed

theorem delete_task_keeps_other_children_witness:
  "mk_task 1 None (Some 1) (2024, 9, 1) ''in_progress'' \<in> set (tasks important_db) \<and>
   mk_task 2 (Some 1) (Some 1) (2024, 9, 10) ''new'' \<in> set (tasks important_db) \<and>
   (\<exists>db'. TaskDestroyAPIView_destroy 1 important_db = Inr db' \<and>
      map task_id (tasks db') = [2, 3] \<and>
      mk_task 2 None (Some 1) (2024, 9, 10) ''new'' \<in> set (tasks db'))"
proof -
  let ?p = "mk_task 1 None (Some 1) (2024, 9, 1) ''in_progress''"
  let ?c = "mk_task 2 (Some 1) (Some 1) (2024, 9, 10) ''new''"
  have a: "?p \<in> set (tasks important_db)" "?c \<in> set (tasks important_db)"
    by (simp_all add: important_db_def)
  have b: "task_id ?p = 1" "parent_task ?c = Some 1" "task_id ?c \<noteq> 1"
    by (simp_all add: mk_task_def)
  have c: "?c\<lparr>parent_task := None\<rparr> = mk_task 2 None (Some 1) (2024, 9, 10) ''new''"
    by (simp add: mk_task_def)
  have d: "filter (\<lambda>i. i \<noteq> 1) (map task_id (tasks important_db)) = [2, 3]"
    by (simp add: mk_task_def important_db_def)
  from delete_task_keeps_other_children[OF a(1)] obtain db' where
    r: "TaskDestroyAPIView_destroy 1 important_db = Inr db'"
    "map task_id (tasks db') = filter (\<lambda>i. i \<noteq> 1) (map task_id (tasks important_db))"
    "\<forall>c \<in> set (tasks important_db). parent_task c = Some 1 \<and> task_id c \<noteq> 1 \<longrightarrow>
        c\<lparr>parent_task := None\<rparr> \<in> set (tasks db')"
    unfolding b(1) by blast
  from r(3) a(2) b(2,3) have "?c\<lparr>parent_task := None\<rparr> \<in> set (tasks db')" by blast
  with r(1,2) a c d show ?thesis by auto
qed

section \<open>Filters of the list views\<close>

lemma lower_literals:
  "lower ''true'' = ''true''" "lower ''1'' = ''1''" "lower ''false'' = ''false''" "lower ''0'' = ''0''"
  by (simp_all add: lower_def lower_char_def)

lemma lower_upper_case: "lower ''TRUE'' = ''true''"
  by (simp add: lower_def lower_char_def char_of_def bit_iff_odd_drop_bit)

lemma set_invalid_filters:
  "set (invalid_filters params) =
     fst ` set params - {''subtasks'', ''has_parent''} - set Task_filterset_fields"
  by (auto simp: invalid_filters_def requested_filters_def qd_keys_def allowed_filters_def)

lemma set_allowed_filters:
  "set allowed_filters = {''assigned_to'', ''status'', ''parent_task'', ''due_date''}"
  by (auto simp: allowed_filters_def Task_filterset_fields_def)

lemma task_list_rejects:
  assumes "k \<in> fst ` set params" "k \<notin> {''subtasks'', ''has_parent''}" "k \<notin> set Task_filterset_fields"
  shows "TaskListAPIView_list lookup params db =
           Inl (ValidationError (Filter_not_possible (invalid_filters params) allowed_filters))
         \<and> k \<in> set (invalid_filters params)"
proof -
  have "k \<in> set (invalid_filters params)" using assms by (simp add: set_invalid_filters)
  then have "invalid_filters params \<noteq> []" by auto
  then show ?thesis using \<open>k \<in> set (invalid_filters params)\<close>
    by (simp add: TaskListAPIView_list_def TaskListAPIView_get_queryset_def)
qed

lemma qd_get_None: "k \<notin> fst ` set params \<Longrightarrow> qd_get params k = None"
proof -
  assume "k \<notin> fst ` set params"
  then have "filter (\<lambda>kv. fst kv = k) params = []" by (auto simp: filter_empty_conv)
  then show ?thesis by (simp add: qd_get_def)
qed

lemma backend_ignores_other_fields:
  assumes "\<forall>f \<in> set fs. f \<notin> fst ` set params"
  shows "foldl (backend_step lookup params) (Inr rows) fs = Inr rows"
  using assms by (induction fs) (auto simp: backend_step_def qd_get_None)

lemma employee_list_ignores_unknown:
  assumes "fst ` set params \<inter> set Employee_filterset_fields = {}"
  shows "EmployeeListAPIView_list lookup params db = Inr (employees db)"
  unfolding EmployeeListAPIView_list_def DjangoFilterBackend_def
  by (rule backend_ignores_other_fields) (use assms in auto)

text \<open>
  Claim C4. The task list rejects a query that names a field outside its allow-list, with
  a message that holds the offending fields and the allowed ones (lemma
  \<open>task_list_rejects\<close>). The employee list has no such check: a query that names no
  declared field returns every worker (lemma \<open>employee_list_ignores_unknown\<close>). The same
  query \<open>invalid_field=some_value\<close> is answered with all four workers by the employee list
  and with the error by the task list.
\<close>

theorem employee_list_accepts_unknown_filter:
  "EmployeeListAPIView_list lookup [(''invalid_field'', ''some_value'')] busy_db
     = Inr [ivanov, petrov, sidorova, kuznetsov]
   \<and> TaskListAPIView_list lookup' [(''invalid_field'', ''some_value'')] busy_db
     = Inl (ValidationError (Filter_not_possible [''invalid_field'']
              [''assigned_to'', ''status'', ''parent_task'', ''due_date'']))"
  by (simp add: EmployeeListAPIView_list_def DjangoFilterBackend_def backend_step_def qd_get_def
      Employee_filterset_fields_def busy_db_def TaskListAPIView_list_def
      TaskListAPIView_get_queryset_def invalid_filters_def requested_filters_def qd_keys_def
      allowed_filters_def Task_filterset_fields_def)

lemma set_subtasks_filter_true:
  "qd_get params ''subtasks'' = Some v \<Longrightarrow> v \<in> {''true'', ''1''} \<Longrightarrow>
   set (subtasks_filter params db qs) = {t \<in> set qs. has_children db t}"
  by (auto simp: subtasks_filter_def lower_literals has_children_def)

lemma set_subtasks_filter_false:
  "qd_get params ''subtasks'' = Some v \<Longrightarrow> v \<in> {''false'', ''0''} \<Longrightarrow>
   set (subtasks_filter params db qs) = {t \<in> set qs. \<not> has_children db t}"
  by (auto simp: subtasks_filter_def lower_literals has_children_def list_ex_iff)

lemma set_has_parent_filter_true:
  "qd_get params ''has_parent'' = Some v \<Longrightarrow> v \<in> {''true'', ''1''} \<Longrightarrow>
   set (has_parent_filter params qs) = {t \<in> set qs. parent_task t \<noteq> None}"
  by (auto simp: has_parent_filter_def lower_literals)

lemma set_has_parent_filter_false:
  "qd_get params ''has_parent'' = Some v \<Longrightarrow> v \<in> {''false'', ''0''} \<Longrightarrow>
   set (has_parent_filter params qs) = {t \<in> set qs. parent_task t = None}"
  by (auto simp: has_parent_filter_def lower_literals)

text \<open>
  Claim C8. For a task-list query that passes the allow-list check and gives
  \<open>subtasks\<close> and \<open>has_parent\<close> one of the literal values true, 1, false, 0 (or leaves them
  out): the result holds exactly the tasks that have at least one child when \<open>subtasks\<close>
  is true or 1, none when it is false or 0, and a parent reference when \<open>has_parent\<close> is
  true or 1, none when it is false or 0.
\<close>

theorem subtree_filters:
  assumes "invalid_filters params = []"
    and "qd_get params ''subtasks'' \<in> {None, Some ''true'', Some ''1'', Some ''false'', Some ''0''}"
    and "qd_get params ''has_parent'' \<in> {None, Some ''true'', Some ''1'', Some ''false'', Some ''0''}"
  shows "\<exists>out. TaskListAPIView_get_queryset params db = Inr out \<and>
     (\<forall>t. t \<in> set out \<longleftrightarrow>
        t \<in> set (tasks db) \<and>
        (qd_get params ''subtasks'' \<in> {Some ''true'', Some ''1''} \<longrightarrow>
           (\<exists>c \<in> set (tasks db). parent_task c = Some (task_id t))) \<and>
        (qd_get params ''subtasks'' \<in> {Some ''false'', Some ''0''} \<longrightarrow>
           \<not> (\<exists>c \<in> set (tasks db). parent_task c = Some (task_id t))) \<and>
        (qd_get params ''has_parent'' \<in> {Some ''true'', Some ''1''} \<longrightarrow> parent_task t \<noteq> None) \<and>
        (qd_get params ''has_parent'' \<in> {Some ''false'', Some ''0''} \<longrightarrow> parent_task t = None))"
proof -
  let ?qs = "List.sort_key task_id (tasks db)"
  let ?mid = "subtasks_filter params db ?qs"
  have out: "TaskListAPIView_get_queryset params db = Inr (has_parent_filter params ?mid)"
    using assms(1) by (simp add: TaskListAPIView_get_queryset_def)
  have mid: "t \<in> set ?mid \<longleftrightarrow> t \<in> set (tasks db) \<and>
        (qd_get params ''subtasks'' \<in> {Some ''true'', Some ''1''} \<longrightarrow> has_children db t) \<and>
        (qd_get params ''subtasks'' \<in> {Some ''false'', Some ''0''} \<longrightarrow> \<not> has_children db t)" for t
  proof (cases "qd_get params ''subtasks''")
    case None
    then show ?thesis by (simp add: subtasks_filter_def)
  next
    case (Some v)
    with assms(2) consider "v \<in> {''true'', ''1''}" | "v \<in> {''false'', ''0''}" by auto
    then show ?thesis
    proof cases
      case 1
      with Some show ?thesis by (auto simp: set_subtasks_filter_true[OF Some 1])
    next
      case 2
      with Some show ?thesis by (auto simp: set_subtasks_filter_false[OF Some 2])
    qed
  qed
  have fin: "t \<in> set (has_parent_filter params qs) \<longleftrightarrow> t \<in> set qs \<and>
        (qd_get params ''has_parent'' \<in> {Some ''true'', Some ''1''} \<longrightarrow> parent_task t \<noteq> None) \<and>
        (qd_get params ''has_parent'' \<in> {Some ''false'', Some ''0''} \<longrightarrow> parent_task t = None)" for t qs
  proof (cases "qd_get params ''has_parent''")
    case None
    then show ?thesis by (simp add: has_parent_filter_def)
  next
    case (Some v)
    with assms(3) consider "v \<in> {''true'', ''1''}" | "v \<in> {''false'', ''0''}" by auto
    then show ?thesis
    proof cases
      case 1
      with Some show ?thesis by (auto simp: set_has_parent_filter_true[OF Some 1])
    next
      case 2
      with Some show ?thesis by (auto simp: set_has_parent_filter_false[OF Some 2])
    qed
  qed
  show ?thesis unfolding out using mid fin by (simp add: has_children_def)
qed

theorem subtree_filters_witness:
  "\<exists>out. TaskListAPIView_get_queryset [(''subtasks'', ''true''), (''has_parent'', ''0'')] important_db = Inr out \<and>
     mk_task 1 None (Some 1) (2024, 9, 1) ''in_progress'' \<in> set out \<and>
     mk_task 2 (Some 1) (Some 1) (2024, 9, 10) ''new'' \<notin> set out \<and>
     mk_task 3 None (Some 1) (2024, 9, 15) ''new'' \<notin> set out"
proof -
  let ?params = "[(''subtasks'', ''true''), (''has_parent'', ''0'')]"
  have a: "invalid_filters ?params = []"
    by (simp add: invalid_filters_def requested_filters_def qd_keys_def)
  have b: "qd_get ?params ''subtasks'' = Some ''true''" "qd_get ?params ''has_parent'' = Some ''0''"
    by (simp_all add: qd_get_def)
  from subtree_filters[of ?params important_db] a b obtain out where
    out: "TaskListAPIView_get_queryset ?params important_db = Inr out"
    and mem: "\<And>t. t \<in> set out \<longleftrightarrow>
        t \<in> set (tasks important_db) \<and>
        (\<exists>c \<in> set (tasks important_db). parent_task c = Some (task_id t)) \<and> parent_task t = None"
    by (auto simp: b)
  have "mk_task 1 None (Some 1) (2024, 9, 1) ''in_progress'' \<in> set out"
    unfolding mem by (simp add: important_db_def mk_task_def)
  moreover have "mk_task 2 (Some 1) (Some 1) (2024, 9, 10) ''new'' \<notin> set out"
    unfolding mem by (simp add: important_db_def mk_task_def)
  moreover have "mk_task 3 None (Some 1) (2024, 9, 15) ''new'' \<notin> set out"
    unfolding mem by (simp add: important_db_def mk_task_def)
  ultimately show ?thesis using out by blast
qed

section \<open>Field validation\<close>

lemma validate_names_present:
  "validate_first_name alpha (Some s) =
     (if isalpha alpha s then Inr (Some s) else Inl (ValidationError First_name_letters))"
  "validate_last_name alpha (Some s) =
     (if isalpha alpha s then Inr (Some s) else Inl (ValidationError Last_name_letters))"
  "validate_middle_name alpha (Some s) =
     (if isalpha alpha s then Inr (Some s) else Inl (ValidationError Middle_name_letters))"
  by (simp_all add: validate_first_name_def validate_last_name_def validate_middle_name_def)

lemma validate_dates_present:
  "validate_hired_date today (Some d) =
     (if today < d then Inl (ValidationError Hired_date_future) else Inr (Some d))"
  "validate_due_date today (Some d) =
     (if d < today then Inl (ValidationError Due_date_past) else Inr (Some d))"
  by (simp_all add: validate_hired_date_def validate_due_date_def)

lemma write_view_rejected:
  "is_valid req = Inl e \<Longrightarrow> write_view is_valid save req db = (Inl e, db)"
  by (simp add: write_view_def)

lemma employee_present_valid:
  assumes "isalpha alpha l" "isalpha alpha f" "isalpha alpha m" "\<not> today < h"
  shows "EmployeeSerializer_is_valid alpha today
           \<lparr>r_last_name = Some (Some l), r_first_name = Some (Some f),
            r_middle_name = Some (Some m), r_hired_date = Some (Some h)\<rparr>
         = Inr \<lparr>r_last_name = Some (Some l), r_first_name = Some (Some f),
            r_middle_name = Some (Some m), r_hired_date = Some (Some h)\<rparr>"
  using assms by (simp add: EmployeeSerializer_is_valid_def field_step_def validate_names_present validate_dates_present)

lemma employee_present_invalid:
  assumes "\<not> isalpha alpha l \<or> \<not> isalpha alpha f \<or> \<not> isalpha alpha m \<or> today < h"
  shows "\<exists>errors. EmployeeSerializer_is_valid alpha today
           \<lparr>r_last_name = Some (Some l), r_first_name = Some (Some f),
            r_middle_name = Some (Some m), r_hired_date = Some (Some h)\<rparr> = Inl (ValidationErrors errors)
         \<and> ((''last_name'', Last_name_letters) \<in> set errors \<longleftrightarrow> \<not> isalpha alpha l)
         \<and> ((''first_name'', First_name_letters) \<in> set errors \<longleftrightarrow> \<not> isalpha alpha f)
         \<and> ((''middle_name'', Middle_name_letters) \<in> set errors \<longleftrightarrow> \<not> isalpha alpha m)
         \<and> ((''hired_date'', Hired_date_future) \<in> set errors \<longleftrightarrow> today < h)"
  using assms by (auto simp: EmployeeSerializer_is_valid_def field_step_def validate_names_present validate_dates_present)

lemma task_present:
  "TaskSerializer_is_valid today \<lparr>r_due_date = Some (Some d)\<rparr> =
     (if d < today then Inl (ValidationErrors [(''due_date'', Due_date_past)])
      else Inr \<lparr>r_due_date = Some (Some d)\<rparr>)"
  by (simp add: TaskSerializer_is_valid_def field_step_def validate_dates_present)

text \<open>
  Claim C7. On values that are present the validation is as claimed (lemmas
  \<open>employee_present_valid\<close>, \<open>employee_present_invalid\<close>, \<open>task_present\<close>,
  \<open>write_view_rejected\<close>). A request for a new worker with alphabetic names and \<open>null\<close> as
  hire date, which is not a date in the future, does not pass: the comparison of \<open>None\<close>
  with today raises \<open>TypeError\<close>. A \<open>null\<close> middle name raises \<open>AttributeError\<close>, where a
  message for the field is claimed.
\<close>

theorem null_hired_date_crashes:
  "isalpha ascii_letter (ascii ''Ivanov'') \<and> isalpha ascii_letter (ascii ''Ivan'') \<and>
   EmployeeSerializer_is_valid ascii_letter (2026, 11, 3) null_hired_request = Inl TypeError \<and>
   EmployeeSerializer_is_valid ascii_letter (2026, 11, 3) null_middle_request = Inl AttributeError"
  by (simp add: EmployeeSerializer_is_valid_def field_step_def validate_names_present
      validate_hired_date_def validate_middle_name_def null_hired_request_def null_middle_request_def
      isalpha_def ascii_letter_def ascii_def)

end
